theory Spec2Isabelle
  imports
    Main
    "HOL-Library.Monad_Syntax"
    "HOL-Library.AList"
    "HOL-Library.Char_ord"
    "HOL-Library.List_Lexorder"
begin

section \<open>BudgetTracker: a shallow embedding of \<^verbatim>\<open>src/BudgetTracker.py\<close>\<close>

text \<open>
  The program keeps a list of validated income and expense records and a dictionary of
  monthly expense limits, writes both to one JSON file after every mutation, and reports
  monthly sums.

  Conventions of the embedding.
  \<^item> A Python \<^verbatim>\<open>str\<close> is a \<^typ>\<open>string\<close>. Isabelle characters are 8-bit, so the model
    covers the strings whose code points are below 256; on those the regular expression
    class \<^verbatim>\<open>\d\<close> is exactly the ten ASCII digits. (On other strings \<^verbatim>\<open>\d\<close> also
    matches the decimal digits of other scripts, which \<^verbatim>\<open>int\<close> converts as well; such
    strings are outside the model.)
  \<^item> Amounts and limits are values of one type \<open>'a\<close>. Of its comparisons and its
    subtraction no law is assumed. The builtin \<^verbatim>\<open>sum\<close> is an argument of the function
    that uses it: on exact numbers it is the sum, computed in any order; on binary
    floating-point numbers it is a rounded sum whose algorithm depends on the interpreter
    (a left fold before CPython 3.12, compensated summation from 3.12), and nothing is
    proved about its value.
  \<^item> A method of \<^verbatim>\<open>BudgetTracker\<close> takes the object and the file system and returns
    what it returns or raises, together with the object and the file system it leaves
    behind: \<open>(error + result) \<times> tracker \<times> fs\<close>.
  \<^item> An exception is the value \<open>Inl e\<close>.
\<close>

datatype error = ValueError | TypeError | AttributeError | OSError

subsection \<open>\<^verbatim>\<open>datetime.strptime\<close>\<close>

text \<open>
  \<^verbatim>\<open>datetime.strptime(s, fmt)\<close> is the standard library's: it turns the format into a
  regular expression, matches it at the start of \<open>s\<close> (\<^verbatim>\<open>re.match\<close>: alternatives in
  order, backtracking), raises \<^verbatim>\<open>ValueError\<close> if nothing matches or if the match does not
  reach the end of \<open>s\<close>, converts the groups with \<^verbatim>\<open>int\<close> and builds a date, which raises
  \<^verbatim>\<open>ValueError\<close> when the year is 0 or the day does not exist in the month. The directives
  the program uses are
  \<^verbatim>\<open>%Y = (?P<Y>\d\d\d\d)\<close>,
  \<^verbatim>\<open>%m = (?P<m>1[0-2]|0[1-9]|[1-9])\<close> and
  \<^verbatim>\<open>%d = (?P<d>3[0-1]|[1-2]\d|0[1-9]|[1-9]| [1-9])\<close>.

  A piece of a regular expression is modelled as the list of its matches at the start of
  a string, in the order in which backtracking tries them: each match is the matched
  text and the rest of the string.
\<close>

type_synonym rx = "string \<Rightarrow> (string \<times> string) list"

definition cls :: "char \<Rightarrow> char \<Rightarrow> char \<Rightarrow> bool" where
  \<comment> \<open>the character class \<^verbatim>\<open>[lo-hi]\<close>\<close>
  "cls lo hi c \<longleftrightarrow> lo \<le> c \<and> c \<le> hi"

definition digit :: "char \<Rightarrow> bool" where
  \<comment> \<open>\<^verbatim>\<open>\d\<close>\<close>
  "digit c \<longleftrightarrow> cls CHR ''0'' CHR ''9'' c"

definition lit :: "char \<Rightarrow> string \<Rightarrow> string list" where
  "lit c s = (case s of [] \<Rightarrow> [] | a # r \<Rightarrow> if a = c then [r] else [])"

definition rx_Y :: rx where
  "rx_Y s = (case s of
      a # b # c # d # r \<Rightarrow> if digit a \<and> digit b \<and> digit c \<and> digit d then [([a, b, c, d], r)] else []
    | _ \<Rightarrow> [])"

definition rx_m :: rx where
  "rx_m s =
     (case s of a # b # r \<Rightarrow> if a = CHR ''1'' \<and> cls CHR ''0'' CHR ''2'' b then [([a, b], r)] else [] | _ \<Rightarrow> [])
   @ (case s of a # b # r \<Rightarrow> if a = CHR ''0'' \<and> cls CHR ''1'' CHR ''9'' b then [([a, b], r)] else [] | _ \<Rightarrow> [])
   @ (case s of a # r \<Rightarrow> if cls CHR ''1'' CHR ''9'' a then [([a], r)] else [] | _ \<Rightarrow> [])"

definition rx_d :: rx where
  "rx_d s =
     (case s of a # b # r \<Rightarrow> if a = CHR ''3'' \<and> cls CHR ''0'' CHR ''1'' b then [([a, b], r)] else [] | _ \<Rightarrow> [])
   @ (case s of a # b # r \<Rightarrow> if cls CHR ''1'' CHR ''2'' a \<and> digit b then [([a, b], r)] else [] | _ \<Rightarrow> [])
   @ (case s of a # b # r \<Rightarrow> if a = CHR ''0'' \<and> cls CHR ''1'' CHR ''9'' b then [([a, b], r)] else [] | _ \<Rightarrow> [])
   @ (case s of a # r \<Rightarrow> if cls CHR ''1'' CHR ''9'' a then [([a], r)] else [] | _ \<Rightarrow> [])
   @ (case s of a # b # r \<Rightarrow> if a = CHR '' '' \<and> cls CHR ''1'' CHR ''9'' b then [([a, b], r)] else [] | _ \<Rightarrow> [])"

text \<open>
  \<^verbatim>\<open>int(text)\<close> on a group of the match: blanks around the digits are dropped (the one
  blank a group can hold is the leading blank of a day), the digits are read in base ten.
\<close>

definition digit_val :: "char \<Rightarrow> nat" where
  "digit_val c = of_char c - 48"

definition py_int :: "string \<Rightarrow> nat" where
  "py_int t = foldl (\<lambda>n c. 10 * n + digit_val c) 0 (filter (\<lambda>c. c \<noteq> CHR '' '') t)"

text \<open>\<^verbatim>\<open>datetime.date(year, month, day)\<close> raises unless the date exists.\<close>

definition is_leap :: "nat \<Rightarrow> bool" where
  "is_leap y \<longleftrightarrow> y mod 4 = 0 \<and> (y mod 100 \<noteq> 0 \<or> y mod 400 = 0)"

definition days_in_month :: "nat \<Rightarrow> nat \<Rightarrow> nat" where
  "days_in_month y m =
     (if m = 2 then (if is_leap y then 29 else 28)
      else if m = 4 \<or> m = 6 \<or> m = 9 \<or> m = 11 then 30 else 31)"

definition datetime_date :: "nat \<Rightarrow> nat \<Rightarrow> nat \<Rightarrow> error + (nat \<times> nat \<times> nat)" where
  "datetime_date y m d =
     (if 1 \<le> y \<and> y \<le> 9999 \<and> 1 \<le> m \<and> m \<le> 12 \<and> 1 \<le> d \<and> d \<le> days_in_month y m
      then Inr (y, m, d) else Inl ValueError)"

text \<open>The two formats of the program: \<^verbatim>\<open>"%Y-%m-%d"\<close> and \<^verbatim>\<open>"%Y-%m"\<close>.\<close>

definition match_Ymd :: "string \<Rightarrow> (string \<times> string \<times> string \<times> string) list" where
  "match_Ymd s = do {
     (y, r1) \<leftarrow> rx_Y s;
     r2 \<leftarrow> lit CHR ''-'' r1;
     (m, r3) \<leftarrow> rx_m r2;
     r4 \<leftarrow> lit CHR ''-'' r3;
     (d, r5) \<leftarrow> rx_d r4;
     [(y, m, d, r5)]
   }"

definition strptime_Ymd :: "string \<Rightarrow> error + (nat \<times> nat \<times> nat)" where
  "strptime_Ymd s =
     (case match_Ymd s of
        [] \<Rightarrow> Inl ValueError
      | (y, m, d, rest) # _ \<Rightarrow>
          if rest \<noteq> [] then Inl ValueError
          else datetime_date (py_int y) (py_int m) (py_int d))"

definition match_Ym :: "string \<Rightarrow> (string \<times> string \<times> string) list" where
  "match_Ym s = do {
     (y, r1) \<leftarrow> rx_Y s;
     r2 \<leftarrow> lit CHR ''-'' r1;
     (m, r3) \<leftarrow> rx_m r2;
     [(y, m, r3)]
   }"

definition strptime_Ym :: "string \<Rightarrow> error + (nat \<times> nat \<times> nat)" where
  "strptime_Ym s =
     (case match_Ym s of
        [] \<Rightarrow> Inl ValueError
      | (y, m, rest) # _ \<Rightarrow>
          if rest \<noteq> [] then Inl ValueError
          else datetime_date (py_int y) (py_int m) 1)"

subsection \<open>\<^verbatim>\<open>Transaction\<close>\<close>

text \<open>
  The dataclass, with the field types it declares. The field \<^verbatim>\<open>type\<close> is called
  \<open>ttype\<close>, as the parameter of \<^verbatim>\<open>add_transaction\<close> is. The constructor runs
  \<^verbatim>\<open>__post_init__\<close>: it returns the object or raises, and an object whose validation
  raised is never returned.
\<close>

record 'a transaction =
  ttype :: string
  amount :: 'a
  date :: string
  description :: string

definition Transaction ::
  "string \<Rightarrow> 'a::{zero,ord} \<Rightarrow> string \<Rightarrow> string \<Rightarrow> error + 'a transaction" where
  "Transaction ty amt dt desc =
     (if ty \<notin> set [''income'', ''expense''] \<or> amt < 0 then Inl ValueError
      else case strptime_Ymd dt of
             Inl e \<Rightarrow> Inl e
           | Inr _ \<Rightarrow> Inr \<lparr>ttype = ty, amount = amt, date = dt, description = desc\<rparr>)"

subsection \<open>The JSON file\<close>

text \<open>
  \<^verbatim>\<open>json.load\<close> and \<^verbatim>\<open>json.dump\<close> are the standard library's. A file that exists holds
  either text that \<^verbatim>\<open>json.load\<close> rejects (or that cannot be read at all), or the text of a
  JSON value; the model keeps the value \<^verbatim>\<open>json.load\<close> returns for it, a JSON object being
  the Python dictionary it is loaded as (its keys are distinct). Writing a value with
  \<^verbatim>\<open>json.dump\<close> leaves a file that \<^verbatim>\<open>json.load\<close> reads back as the same value.

  Writing can fail, and the file system says for each path how: \<^verbatim>\<open>open(path, "w")\<close>
  raises \<^verbatim>\<open>OSError\<close> (a missing directory, no permission) and leaves the file as it
  was; or the file is opened, which empties it, and writing or closing it raises
  \<^verbatim>\<open>OSError\<close> (a full disk), which leaves a part of the text, never a whole JSON
  value. A path that holds a NUL character names no file: \<^verbatim>\<open>os.path.exists\<close> returns
  false for it and \<^verbatim>\<open>open\<close> raises \<^verbatim>\<open>ValueError\<close>.
\<close>

datatype 'a json =
    JNull
  | JBool bool
  | JNum 'a
  | JStr string
  | JArr "'a json list"
  | JObj "(string \<times> 'a json) list"

datatype 'a document = Unparsable | Parsed "'a json"

datatype write_outcome = Writes | Open_fails | Dump_fails

record 'a fs =
  files :: "string \<Rightarrow> 'a document option"
  on_write :: "string \<Rightarrow> write_outcome"

definition has_NUL :: "string \<Rightarrow> bool" where
  "has_NUL path \<longleftrightarrow> CHR 0x00 \<in> set path"

definition lookup_file :: "'a fs \<Rightarrow> string \<Rightarrow> 'a document option" where
  \<comment> \<open>the file \<^verbatim>\<open>os.path.exists\<close> and \<^verbatim>\<open>open\<close> find at a path, if any\<close>
  "lookup_file fs path = (if has_NUL path then None else files fs path)"

subsection \<open>\<^verbatim>\<open>BudgetTracker\<close>\<close>

text \<open>
  The object, with the field types it declares: \<^verbatim>\<open>List[Transaction]\<close> and
  \<^verbatim>\<open>Dict[str, float]\<close>. The dictionary is an association list in insertion order, updated
  as Python updates a dictionary: an existing key keeps its place and gets the new value,
  a new key goes to the end.
\<close>

record 'a tracker =
  data_file :: string
  transactions :: "'a transaction list"
  expense_limits :: "(string \<times> 'a) list"

definition asdict :: "'a transaction \<Rightarrow> 'a json" where
  "asdict t = JObj [(''type'', JStr (ttype t)), (''amount'', JNum (amount t)),
                    (''date'', JStr (date t)), (''description'', JStr (description t))]"

definition to_json :: "'a tracker \<Rightarrow> 'a json" where
  \<comment> \<open>the dictionary that \<^verbatim>\<open>save\<close> hands to \<^verbatim>\<open>json.dump\<close>\<close>
  "to_json b = JObj [(''transactions'', JArr (map asdict (transactions b))),
                     (''expense_limits'', JObj (map (\<lambda>(k, v). (k, JNum v)) (expense_limits b)))]"

definition save :: "'a tracker \<Rightarrow> 'a fs \<Rightarrow> (error + unit) \<times> 'a fs" where
  "save b fs =
     (if has_NUL (data_file b) then (Inl ValueError, fs)
      else case on_write fs (data_file b) of
          Open_fails \<Rightarrow> (Inl OSError, fs)
        | Dump_fails \<Rightarrow> (Inl OSError, fs\<lparr>files := (files fs)(data_file b \<mapsto> Unparsable)\<rparr>)
        | Writes \<Rightarrow> (Inr (), fs\<lparr>files := (files fs)(data_file b \<mapsto> Parsed (to_json b))\<rparr>))"

text \<open>
  \<^verbatim>\<open>load\<close> reads values of any JSON shape, and Python checks only what the statements of
  \<^verbatim>\<open>load\<close> and \<^verbatim>\<open>__post_init__\<close> touch. A document can therefore be loaded without an
  exception and leave a value in the object that its declared field types exclude (a
  description that is not a string, a Boolean amount, limits that are not a dictionary of
  numbers). This model keeps the declared types: for such a document the functions below
  return \<open>None\<close>, and nothing is claimed about it. Every other outcome is \<open>Some\<close>: an
  exception \<open>Some (Inl e)\<close> or a value \<open>Some (Inr v)\<close>.
\<close>

definition dict_get :: "(string \<times> 'v) list \<Rightarrow> string \<Rightarrow> 'v \<Rightarrow> 'v" where
  "dict_get kvs k dflt = (case map_of kvs k of None \<Rightarrow> dflt | Some v \<Rightarrow> v)"

definition post_init_json ::
  "'a::{zero,ord} json \<Rightarrow> 'a json \<Rightarrow> 'a json \<Rightarrow> 'a json \<Rightarrow> (error + 'a transaction) option" where
  \<comment> \<open>\<^verbatim>\<open>__post_init__\<close> on fields of any JSON shape\<close>
  "post_init_json ty amt dt desc =
     (if ty \<notin> set [JStr ''income'', JStr ''expense''] then Some (Inl ValueError)
      else case amt of
          JNum a \<Rightarrow>
            if a < 0 then Some (Inl ValueError)
            else (case dt of
                JStr d \<Rightarrow>
                  (case strptime_Ymd d of
                     Inl e \<Rightarrow> Some (Inl e)
                   | Inr _ \<Rightarrow>
                       (case (ty, desc) of
                          (JStr t, JStr s) \<Rightarrow>
                            Some (Inr \<lparr>ttype = t, amount = a, date = d, description = s\<rparr>)
                        | _ \<Rightarrow> None))
              | _ \<Rightarrow> Some (Inl TypeError))
        | JBool _ \<Rightarrow>
            (case dt of
                JStr d \<Rightarrow> (case strptime_Ymd d of Inl e \<Rightarrow> Some (Inl e) | Inr _ \<Rightarrow> None)
              | _ \<Rightarrow> Some (Inl TypeError))
        | _ \<Rightarrow> Some (Inl TypeError))"

definition Transaction_kwargs :: "'a::{zero,ord} json \<Rightarrow> (error + 'a transaction) option" where
  \<comment> \<open>\<^verbatim>\<open>Transaction(**t)\<close>: \<open>t\<close> must be a mapping with exactly the four field names as keys\<close>
  "Transaction_kwargs t =
     (case t of
        JObj kw \<Rightarrow>
          (case (map_of kw ''type'', map_of kw ''amount'', map_of kw ''date'',
                 map_of kw ''description'') of
             (Some ty, Some amt, Some dt, Some desc) \<Rightarrow>
               if list_all (\<lambda>k. k \<in> set [''type'', ''amount'', ''date'', ''description''])
                    (map fst kw)
               then post_init_json ty amt dt desc
               else Some (Inl TypeError)
           | _ \<Rightarrow> Some (Inl TypeError))
      | _ \<Rightarrow> Some (Inl TypeError))"

definition iterate :: "'a json \<Rightarrow> error + 'a json list" where
  \<comment> \<open>\<^verbatim>\<open>for t in v\<close>: a list gives its elements, a dictionary its keys, a string its characters\<close>
  "iterate v =
     (case v of
        JArr xs \<Rightarrow> Inr xs
      | JObj kvs \<Rightarrow> Inr (map (\<lambda>(k, _). JStr k) kvs)
      | JStr s \<Rightarrow> Inr (map (\<lambda>c. JStr [c]) s)
      | _ \<Rightarrow> Inl TypeError)"

fun load_transactions :: "'a::{zero,ord} json list \<Rightarrow> (error + 'a transaction list) option" where
  \<comment> \<open>the comprehension \<^verbatim>\<open>[Transaction(**t) for t in ...]\<close>: the first exception ends it\<close>
  "load_transactions [] = Some (Inr [])"
| "load_transactions (t # ts) =
     (case Transaction_kwargs t of
        Some (Inl e) \<Rightarrow> Some (Inl e)
      | r \<Rightarrow>
          (case load_transactions ts of
             Some (Inl e) \<Rightarrow> Some (Inl e)
           | None \<Rightarrow> None
           | Some (Inr xs) \<Rightarrow> (case r of Some (Inr x) \<Rightarrow> Some (Inr (x # xs)) | _ \<Rightarrow> None)))"

fun limits_of_json :: "(string \<times> 'a json) list \<Rightarrow> (string \<times> 'a) list option" where
  "limits_of_json [] = Some []"
| "limits_of_json ((k, JNum v) # kvs) =
     (case limits_of_json kvs of None \<Rightarrow> None | Some ls \<Rightarrow> Some ((k, v) # ls))"
| "limits_of_json _ = None"

definition load_body ::
  "'a::{zero,ord} json \<Rightarrow> (error + 'a transaction list \<times> (string \<times> 'a) list) option" where
  \<comment> \<open>the two assignments of the \<^verbatim>\<open>try\<close> block, from the value \<^verbatim>\<open>json.load\<close> returned\<close>
  "load_body data =
     (case data of
        JObj kvs \<Rightarrow>
          (case iterate (dict_get kvs ''transactions'' (JArr [])) of
             Inl e \<Rightarrow> Some (Inl e)
           | Inr items \<Rightarrow>
               (case load_transactions items of
                  None \<Rightarrow> None
                | Some (Inl e) \<Rightarrow> Some (Inl e)
                | Some (Inr ts) \<Rightarrow>
                    (case dict_get kvs ''expense_limits'' (JObj []) of
                       JObj ls \<Rightarrow>
                         (case limits_of_json ls of
                            None \<Rightarrow> None
                          | Some lims \<Rightarrow> Some (Inr (ts, lims)))
                     | _ \<Rightarrow> None)))
      | _ \<Rightarrow> Some (Inl AttributeError))"

definition load :: "'a::{zero,ord} tracker \<Rightarrow> 'a fs \<Rightarrow> ((error + unit) \<times> 'a tracker \<times> 'a fs) option" where
  "load b fs =
     (case lookup_file fs (data_file b) of
        None \<Rightarrow> Some (Inr (), b, fs)
      | Some Unparsable \<Rightarrow> Some (Inr (), b\<lparr>transactions := [], expense_limits := []\<rparr>, fs)
      | Some (Parsed data) \<Rightarrow>
          (case load_body data of
             None \<Rightarrow> None
           | Some (Inl e) \<Rightarrow> Some (Inr (), b\<lparr>transactions := [], expense_limits := []\<rparr>, fs)
           | Some (Inr (ts, lims)) \<Rightarrow>
               Some (Inr (), b\<lparr>transactions := ts, expense_limits := lims\<rparr>, fs)))"

definition BudgetTracker :: "string \<Rightarrow> 'a::{zero,ord} fs \<Rightarrow> ((error + unit) \<times> 'a tracker \<times> 'a fs) option" where
  \<comment> \<open>\<^verbatim>\<open>__init__\<close>\<close>
  "BudgetTracker path fs = load \<lparr>data_file = path, transactions = [], expense_limits = []\<rparr> fs"

definition add_transaction ::
  "'a::{zero,ord} tracker \<Rightarrow> 'a fs \<Rightarrow> string \<Rightarrow> 'a \<Rightarrow> string \<Rightarrow> string
     \<Rightarrow> (error + unit) \<times> 'a tracker \<times> 'a fs" where
  "add_transaction b fs ty amt dt desc =
     (case Transaction ty amt dt desc of
        Inl e \<Rightarrow> (Inl e, b, fs)
      | Inr t \<Rightarrow>
          (let b' = b\<lparr>transactions := transactions b @ [t]\<rparr>;
               (r, fs') = save b' fs
           in (r, b', fs')))"

definition set_limit ::
  "'a tracker \<Rightarrow> 'a fs \<Rightarrow> string \<Rightarrow> 'a \<Rightarrow> (error + unit) \<times> 'a tracker \<times> 'a fs" where
  "set_limit b fs mon lim =
     (case strptime_Ym mon of
        Inl e \<Rightarrow> (Inl e, b, fs)
      | Inr _ \<Rightarrow>
          (let b' = b\<lparr>expense_limits := AList.update mon lim (expense_limits b)\<rparr>;
               (r, fs') = save b' fs
           in (r, b', fs')))"

record 'a summary =
  month :: string
  income :: 'a
  expense :: 'a
  balance :: 'a
  limit :: "'a option"
  status :: string

definition startswith :: "string \<Rightarrow> string \<Rightarrow> bool" where
  "startswith s p \<longleftrightarrow> take (length p) s = p"

text \<open>
  \<^verbatim>\<open>summary(month=None)\<close>. The clock is the argument \<open>now\<close>: the string
  \<^verbatim>\<open>datetime.now().strftime("%Y-%m")\<close> at the time of the call. The builtin \<^verbatim>\<open>sum\<close>
  is the argument \<open>sm\<close>.
\<close>

definition summary_with ::
  "('a list \<Rightarrow> 'a) \<Rightarrow> 'a::{minus,ord} tracker \<Rightarrow> 'a fs \<Rightarrow> string option \<Rightarrow> string
     \<Rightarrow> (error + 'a summary) \<times> 'a tracker \<times> 'a fs" where
  "summary_with sm b fs mon_opt now =
     (let mon = (case mon_opt of None \<Rightarrow> now | Some m \<Rightarrow> m) in
      case strptime_Ym mon of
        Inl e \<Rightarrow> (Inl e, b, fs)
      | Inr _ \<Rightarrow>
          (let inc = sm (map amount (filter (\<lambda>t. ttype t = ''income'' \<and> startswith (date t) mon)
                                       (transactions b)));
               exp = sm (map amount (filter (\<lambda>t. ttype t = ''expense'' \<and> startswith (date t) mon)
                                       (transactions b)));
               bal = inc - exp;
               lim = map_of (expense_limits b) mon;
               st = (case lim of
                       None \<Rightarrow> ''No limit set''
                     | Some l \<Rightarrow> if exp \<le> l then ''Within limit'' else ''Limit exceeded'')
           in (Inr \<lparr>month = mon, income = inc, expense = exp, balance = bal, limit = lim,
                    status = st\<rparr>, b, fs)))"

text \<open>
  On exact numbers (Python's \<^verbatim>\<open>int\<close>, \<^verbatim>\<open>Fraction\<close>), whose addition is associative with
  0 neutral, the builtin \<^verbatim>\<open>sum\<close> starts from 0 and adds the items from left to right.
\<close>

definition py_sum :: "'a::monoid_add list \<Rightarrow> 'a" where
  "py_sum xs = foldl (\<lambda>acc x. acc + x) 0 xs"

definition summary ::
  "'a::{monoid_add,minus,ord} tracker \<Rightarrow> 'a fs \<Rightarrow> string option \<Rightarrow> string
     \<Rightarrow> (error + 'a summary) \<times> 'a tracker \<times> 'a fs" where
  "summary = summary_with py_sum"

definition months :: "'a tracker \<Rightarrow> 'a fs \<Rightarrow> string list \<times> 'a tracker \<times> 'a fs" where
  \<comment> \<open>\<^verbatim>\<open>sorted({t.date[:7] for t in self.transactions})\<close>\<close>
  "months b fs = (sort (remdups (map (\<lambda>t. take 7 (date t)) (transactions b))), b, fs)"

subsection \<open>What the validation accepts, and what the specification calls strict\<close>

text \<open>
  The strings \<^verbatim>\<open>strptime\<close> accepts, said without the regular expression. A month is
  written with one or two digits and is between 1 and 12; a day is written with one or two
  digits, or a blank and a digit, and is between 1 and 31. \<open>month_form\<close> and
  \<open>day_form\<close> say the same with character classes.
\<close>

definition month_token :: "string \<Rightarrow> bool" where
  "month_token t \<longleftrightarrow>
     (length t = 1 \<or> length t = 2) \<and> list_all digit t \<and> 1 \<le> py_int t \<and> py_int t \<le> 12"

definition day_token :: "string \<Rightarrow> bool" where
  "day_token t \<longleftrightarrow>
     ((length t = 1 \<or> length t = 2) \<and> list_all digit t
      \<or> (case t of [a, b] \<Rightarrow> a = CHR '' '' \<and> digit b | _ \<Rightarrow> False))
     \<and> 1 \<le> py_int t \<and> py_int t \<le> 31"

definition month_form :: "string \<Rightarrow> bool" where
  "month_form t \<longleftrightarrow>
     (case t of
        [a] \<Rightarrow> cls CHR ''1'' CHR ''9'' a
      | [a, b] \<Rightarrow> a = CHR ''1'' \<and> cls CHR ''0'' CHR ''2'' b \<or> a = CHR ''0'' \<and> cls CHR ''1'' CHR ''9'' b
      | _ \<Rightarrow> False)"

definition day_form :: "string \<Rightarrow> bool" where
  "day_form t \<longleftrightarrow>
     (case t of
        [a] \<Rightarrow> cls CHR ''1'' CHR ''9'' a
      | [a, b] \<Rightarrow> a = CHR ''3'' \<and> cls CHR ''0'' CHR ''1'' b \<or> cls CHR ''1'' CHR ''2'' a \<and> digit b
                \<or> a = CHR ''0'' \<and> cls CHR ''1'' CHR ''9'' b \<or> a = CHR '' '' \<and> cls CHR ''1'' CHR ''9'' b
      | _ \<Rightarrow> False)"

text \<open>
  \<open>accepts_Ym s\<close>: \<open>s\<close> is four digits that are not all zero, a dash and a month.
\<close>

definition accepts_Ym :: "string \<Rightarrow> bool" where
  "accepts_Ym s \<longleftrightarrow>
     (let y = take 4 s
      in length y = 4 \<and> list_all digit y \<and> 1 \<le> py_int y
         \<and> take 1 (drop 4 s) = ''-'' \<and> month_token (drop 5 s))"

text \<open>
  \<open>accepts_Ymd s\<close>: \<open>s\<close> is four digits that are not all zero, a dash, a month (the
  text up to the next dash), a dash and a day that exists in that month of that year.
\<close>

definition month_field :: "string \<Rightarrow> string" where
  "month_field s = takeWhile (\<lambda>c. c \<noteq> CHR ''-'') (drop 5 s)"

definition day_field :: "string \<Rightarrow> string" where
  "day_field s = drop (5 + length (month_field s) + 1) s"

definition accepts_Ymd :: "string \<Rightarrow> bool" where
  "accepts_Ymd s \<longleftrightarrow>
     (let y = take 4 s; m = month_field s; d = day_field s
      in length y = 4 \<and> list_all digit y \<and> 1 \<le> py_int y
         \<and> take 1 (drop 4 s) = ''-'' \<and> month_token m
         \<and> take 1 (drop (5 + length m) s) = ''-'' \<and> day_token d
         \<and> py_int d \<le> days_in_month (py_int y) (py_int m))"

text \<open>
  The strict patterns in the specification's words: \<^verbatim>\<open>YYYY-MM\<close> is a four-digit year
  and a two-digit month 01 to 12; \<^verbatim>\<open>YYYY-MM-DD\<close> adds a two-digit day valid for that
  month and year.
\<close>

definition strict_YYYY_MM :: "string \<Rightarrow> bool" where
  "strict_YYYY_MM s \<longleftrightarrow>
     length s = 7 \<and> list_all digit (take 4 s) \<and> s ! 4 = CHR ''-''
     \<and> list_all digit (drop 5 s) \<and> 1 \<le> py_int (drop 5 s) \<and> py_int (drop 5 s) \<le> 12"

definition strict_YYYY_MM_DD :: "string \<Rightarrow> bool" where
  "strict_YYYY_MM_DD s \<longleftrightarrow>
     length s = 10 \<and> list_all digit (take 4 s) \<and> s ! 4 = CHR ''-''
     \<and> list_all digit (take 2 (drop 5 s))
     \<and> 1 \<le> py_int (take 2 (drop 5 s)) \<and> py_int (take 2 (drop 5 s)) \<le> 12
     \<and> s ! 7 = CHR ''-'' \<and> list_all digit (drop 8 s)
     \<and> 1 \<le> py_int (drop 8 s)
     \<and> py_int (drop 8 s) \<le> days_in_month (py_int (take 4 s)) (py_int (take 2 (drop 5 s)))"

text \<open>A transaction that the constructor accepts, and a store that holds only such.\<close>

definition valid_transaction :: "'a::{zero,ord} transaction \<Rightarrow> bool" where
  "valid_transaction t \<longleftrightarrow>
     ttype t \<in> set [''income'', ''expense''] \<and> \<not> amount t < 0 \<and> accepts_Ymd (date t)"

definition well_formed :: "'a::{zero,ord} tracker \<Rightarrow> bool" where
  "well_formed b \<longleftrightarrow> list_all valid_transaction (transactions b)"

text \<open>A file system without files where every write succeeds, and the store a first run starts from.\<close>

definition no_files :: "'a fs" where
  "no_files = \<lparr>files = (\<lambda>path. None), on_write = (\<lambda>path. Writes)\<rparr>"

definition DATA_FILE :: string where
  "DATA_FILE = ''budget_data.json''"

definition empty_tracker :: "string \<Rightarrow> 'a tracker" where
  "empty_tracker path = \<lparr>data_file = path, transactions = [], expense_limits = []\<rparr>"

text \<open>The stores of the specification's scenarios, with whole amounts.\<close>

definition scenario_A :: "int tracker" where
  "scenario_A = \<lparr>data_file = DATA_FILE,
     transactions = [\<lparr>ttype = ''income'', amount = 1000, date = ''2024-01-05'', description = ''pay''\<rparr>,
                     \<lparr>ttype = ''expense'', amount = 400, date = ''2024-01-10'', description = ''rent''\<rparr>],
     expense_limits = []\<rparr>"

definition scenario_B :: "int tracker" where
  "scenario_B = \<lparr>data_file = DATA_FILE,
     transactions = [\<lparr>ttype = ''income'', amount = 1000, date = ''2024-01-05'', description = ''pay''\<rparr>,
                     \<lparr>ttype = ''expense'', amount = 400, date = ''2024-01-10'', description = ''rent''\<rparr>],
     expense_limits = [(''2024-01'', 300)]\<rparr>"

definition scenario_C :: "int tracker" where
  "scenario_C = \<lparr>data_file = DATA_FILE,
     transactions = [\<lparr>ttype = ''expense'', amount = 500, date = ''2024-02-01'', description = ''car''\<rparr>],
     expense_limits = [(''2024-02'', 500)]\<rparr>"

definition scenario_D :: "int tracker" where
  "scenario_D = \<lparr>data_file = DATA_FILE,
     transactions = [\<lparr>ttype = ''income'', amount = 10, date = ''2024-03-15'', description = ''a''\<rparr>,
                     \<lparr>ttype = ''expense'', amount = 5, date = ''2024-01-02'', description = ''b''\<rparr>,
                     \<lparr>ttype = ''expense'', amount = 7, date = ''2024-03-01'', description = ''c''\<rparr>],
     expense_limits = []\<rparr>"

definition limit_store :: "int tracker" where
  "limit_store = \<lparr>data_file = DATA_FILE, transactions = [], expense_limits = [(''2024-01'', 300)]\<rparr>"

text \<open>A store with transactions of January, October, November and December 2024.\<close>

definition prefix_store :: "int tracker" where
  "prefix_store = \<lparr>data_file = DATA_FILE,
     transactions = [\<lparr>ttype = ''income'', amount = 100, date = ''2024-01-05'', description = ''jan''\<rparr>,
                     \<lparr>ttype = ''income'', amount = 50, date = ''2024-10-05'', description = ''oct''\<rparr>,
                     \<lparr>ttype = ''expense'', amount = 30, date = ''2024-11-02'', description = ''nov''\<rparr>,
                     \<lparr>ttype = ''income'', amount = 70, date = ''2024-12-24'', description = ''dec''\<rparr>],
     expense_limits = []\<rparr>"

text \<open>A file that cannot be parsed, and a document whose second entry has a kind that is not allowed.\<close>

definition corrupt_files :: "int fs" where
  "corrupt_files = no_files\<lparr>files := (files no_files)(DATA_FILE \<mapsto> Unparsable)\<rparr>"

definition bad_entry_document :: "int json" where
  "bad_entry_document = JObj
     [(''transactions'', JArr
        [JObj [(''type'', JStr ''income''), (''amount'', JNum 10), (''date'', JStr ''2024-01-05''),
               (''description'', JStr ''ok'')],
         JObj [(''type'', JStr ''salary''), (''amount'', JNum 10), (''date'', JStr ''2024-01-06''),
               (''description'', JStr ''bad kind'')]]),
      (''expense_limits'', JObj [(''2024-01'', JNum 300)])]"

definition bad_entry_files :: "int fs" where
  "bad_entry_files = no_files\<lparr>files := (files no_files)(DATA_FILE \<mapsto> Parsed bad_entry_document)\<rparr>"

text \<open>A file system in which the data file cannot be opened for writing.\<close>

definition locked_files :: "int fs" where
  "locked_files = no_files\<lparr>on_write := (\<lambda>path. Open_fails)\<rparr>"


definition january_15_store :: "int tracker" where
  "january_15_store = \<lparr>data_file = DATA_FILE,
     transactions = [\<lparr>ttype = ''income'', amount = 10, date = ''2024-01-15'', description = ''a''\<rparr>],
     expense_limits = []\<rparr>"

definition unpadded_store :: "int tracker" where
  "unpadded_store = \<lparr>data_file = DATA_FILE,
     transactions = [\<lparr>ttype = ''income'', amount = 10, date = ''2024-01-15'', description = ''a''\<rparr>,
                     \<lparr>ttype = ''expense'', amount = 5, date = ''2024-1-5'', description = ''b''\<rparr>],
     expense_limits = []\<rparr>"

section \<open>The validation\<close>

lemma char_eq_nat: "(c = d) = ((of_char c :: nat) = of_char d)"
  by simp

lemmas tok = month_form_def day_form_def digit_def cls_def less_eq_char_def rx_m_def rx_d_def lit_def

lemma rx_m_end:
  "(case rx_m s of [] \<Rightarrow> None | (t, r) # _ \<Rightarrow> if r = [] then Some t else None)
     = (if month_form s then Some s else None)"
proof (cases s)
  case Nil then show ?thesis by (simp add: tok)
next
  case (Cons a s1)
  show ?thesis
  proof (cases s1)
    case Nil with Cons show ?thesis by (auto simp add: tok char_eq_nat)
  next
    case (Cons b s2)
    show ?thesis
    proof (cases s2)
      case Nil with Cons \<open>s = a # s1\<close> show ?thesis by (auto simp add: tok char_eq_nat)
    next
      case (Cons c s3)
      with \<open>s1 = b # s2\<close> \<open>s = a # s1\<close> show ?thesis by (auto simp add: tok char_eq_nat)
    qed
  qed
qed

lemma rx_d_end:
  "(case rx_d s of [] \<Rightarrow> None | (t, r) # _ \<Rightarrow> if r = [] then Some t else None)
     = (if day_form s then Some s else None)"
proof (cases s)
  case Nil then show ?thesis by (simp add: tok)
next
  case (Cons a s1)
  show ?thesis
  proof (cases s1)
    case Nil with Cons show ?thesis by (auto simp add: tok char_eq_nat)
  next
    case (Cons b s2)
    show ?thesis
    proof (cases s2)
      case Nil with Cons \<open>s = a # s1\<close> show ?thesis by (auto simp add: tok char_eq_nat)
    next
      case (Cons c s3)
      with \<open>s1 = b # s2\<close> \<open>s = a # s1\<close> show ?thesis by (auto simp add: tok char_eq_nat)
    qed
  qed
qed

lemma month_arith:
  fixes a b :: nat
  assumes "48 \<le> a" "a \<le> 57" "48 \<le> b" "b \<le> 57"
  shows "(1 \<le> 10 * (a - 48) + (b - 48) \<and> 10 * (a - 48) + (b - 48) \<le> 12)
         \<longleftrightarrow> (a = 49 \<and> b \<le> 50 \<or> a = 48 \<and> 49 \<le> b)"
  using assms by arith

lemma day_arith:
  fixes a b :: nat
  assumes "48 \<le> a" "a \<le> 57" "48 \<le> b" "b \<le> 57"
  shows "(1 \<le> 10 * (a - 48) + (b - 48) \<and> 10 * (a - 48) + (b - 48) \<le> 31)
         \<longleftrightarrow> (a = 51 \<and> b \<le> 49 \<or> 49 \<le> a \<and> a \<le> 50 \<or> a = 48 \<and> 49 \<le> b)"
  using assms by arith

lemma py_int_1: "a \<noteq> CHR '' '' \<Longrightarrow> py_int [a] = of_char a - 48"
  by (simp add: py_int_def digit_val_def)

lemma py_int_2: "a \<noteq> CHR '' '' \<Longrightarrow> b \<noteq> CHR '' '' \<Longrightarrow> py_int [a, b] = 10 * (of_char a - 48) + (of_char b - 48)"
  by (simp add: py_int_def digit_val_def)

lemma py_int_sp: "b \<noteq> CHR '' '' \<Longrightarrow> py_int [CHR '' '', b] = of_char b - 48"
  by (simp add: py_int_def digit_val_def)

lemma digit_nat: "digit c \<longleftrightarrow> 48 \<le> (of_char c :: nat) \<and> (of_char c :: nat) \<le> 57"
  by (simp add: digit_def cls_def less_eq_char_def)

lemma digit_not_space: "digit c \<Longrightarrow> c \<noteq> CHR '' ''"
  by (auto simp add: digit_nat)

lemma month_token_form: "month_token t = month_form t"
proof (cases t)
  case Nil then show ?thesis by (simp add: month_token_def month_form_def)
next
  case (Cons a t1)
  show ?thesis
  proof (cases t1)
    case Nil
    with Cons show ?thesis
      by (auto simp add: month_token_def month_form_def py_int_1 digit_not_space digit_nat
          cls_def less_eq_char_def)
  next
    case (Cons b t2)
    show ?thesis
    proof (cases t2)
      case Nil
      show ?thesis
      proof (cases "digit a \<and> digit b")
        case True
        then show ?thesis
          using month_arith [of "of_char a" "of_char b"]
          unfolding \<open>t = a # t1\<close> \<open>t1 = b # t2\<close> \<open>t2 = []\<close>
          by (simp add: month_token_def month_form_def py_int_2 digit_not_space digit_nat
              cls_def less_eq_char_def char_eq_nat)
      next
        case False
        then show ?thesis
          unfolding \<open>t = a # t1\<close> \<open>t1 = b # t2\<close> \<open>t2 = []\<close>
          by (auto simp add: month_token_def month_form_def digit_nat
              cls_def less_eq_char_def char_eq_nat)
      qed
    next
      case (Cons c t3)
      with \<open>t = a # t1\<close> \<open>t1 = b # t2\<close> show ?thesis
        by (simp add: month_token_def month_form_def)
    qed
  qed
qed

lemma day_token_form: "day_token t = day_form t"
proof (cases t)
  case Nil then show ?thesis by (simp add: day_token_def day_form_def)
next
  case (Cons a t1)
  show ?thesis
  proof (cases t1)
    case Nil
    with Cons show ?thesis
      by (auto simp add: day_token_def day_form_def py_int_1 digit_not_space digit_nat
          cls_def less_eq_char_def)
  next
    case (Cons b t2)
    show ?thesis
    proof (cases t2)
      case Nil
      consider (dd) "digit a \<and> digit b" | (sp) "a = CHR '' '' \<and> digit b"
        | (no) "\<not> (digit a \<and> digit b) \<and> \<not> (a = CHR '' '' \<and> digit b)"
        by blast
      then show ?thesis
      proof cases
        case dd
        then show ?thesis
          using day_arith [of "of_char a" "of_char b"]
          unfolding \<open>t = a # t1\<close> \<open>t1 = b # t2\<close> \<open>t2 = []\<close>
          by (simp add: day_token_def day_form_def py_int_2 digit_not_space digit_nat
              cls_def less_eq_char_def char_eq_nat)
      next
        case sp
        then show ?thesis
          unfolding \<open>t = a # t1\<close> \<open>t1 = b # t2\<close> \<open>t2 = []\<close>
          by (auto simp add: day_token_def day_form_def py_int_sp digit_not_space digit_nat
              cls_def less_eq_char_def)
      next
        case no
        then show ?thesis
          unfolding \<open>t = a # t1\<close> \<open>t1 = b # t2\<close> \<open>t2 = []\<close>
          by (auto simp add: day_token_def day_form_def digit_nat
              cls_def less_eq_char_def char_eq_nat)
      qed
    next
      case (Cons c t3)
      with \<open>t = a # t1\<close> \<open>t1 = b # t2\<close> show ?thesis
        by (simp add: day_token_def day_form_def)
    qed
  qed
qed

lemma rx_m_dash:
  "List.bind (rx_m r) (\<lambda>(m, r3). List.bind (lit CHR ''-'' r3) (f m))
     = (let m = takeWhile (\<lambda>c. c \<noteq> CHR ''-'') r
        in if month_form m \<and> take 1 (drop (length m) r) = ''-''
           then f m (drop (length m + 1) r) else [])"
proof (cases r)
  case Nil then show ?thesis by (simp add: tok)
next
  case (Cons a s1)
  show ?thesis
  proof (cases s1)
    case Nil with Cons show ?thesis by (auto simp add: tok char_eq_nat)
  next
    case (Cons b s2)
    show ?thesis
    proof (cases s2)
      case Nil with Cons \<open>r = a # s1\<close> show ?thesis by (auto simp add: tok char_eq_nat)
    next
      case (Cons c s3)
      with \<open>s1 = b # s2\<close> \<open>r = a # s1\<close> show ?thesis by (auto simp add: tok char_eq_nat)
    qed
  qed
qed

lemma rx_Y_eq:
  "rx_Y s = (if length (take 4 s) = 4 \<and> list_all digit (take 4 s) then [(take 4 s, drop 4 s)] else [])"
  by (auto simp add: rx_Y_def split: list.splits)

lemma lit_eq: "lit c r = (if take 1 r = [c] then [drop 1 r] else [])"
  by (auto simp add: lit_def split: list.splits)

lemma py_int_year:
  assumes "length y = 4" "list_all digit y"
  shows "py_int y \<le> 9999"
proof -
  from assms(1) obtain a b c d where y: "y = [a, b, c, d]"
    by (cases y; simp; rename_tac y1; case_tac y1; simp; rename_tac y2; case_tac y2; simp;
        rename_tac y3; case_tac y3; simp)
  with assms(2) show ?thesis
    by (simp add: py_int_def digit_val_def digit_nat digit_not_space) arith
qed

lemma month_token_range: "month_token m \<Longrightarrow> 1 \<le> py_int m \<and> py_int m \<le> 12"
  by (simp add: month_token_def)

lemma day_token_range: "day_token d \<Longrightarrow> 1 \<le> py_int d \<and> py_int d \<le> 31"
  by (simp add: day_token_def)

lemma days_in_month_pos: "1 \<le> days_in_month y m"
  by (simp add: days_in_month_def)

lemma strptime_Ym_eq:
  "strptime_Ym s =
     (if accepts_Ym s then Inr (py_int (take 4 s), py_int (drop 5 s), 1) else Inl ValueError)"
proof (cases "length (take 4 s) = 4 \<and> list_all digit (take 4 s) \<and> take 1 (drop 4 s) = ''-''")
  case False
  then show ?thesis
    by (auto simp add: strptime_Ym_def match_Ym_def rx_Y_eq lit_eq accepts_Ym_def Let_def)
next
  case True
  then have m: "match_Ym s = map (\<lambda>(m, r3). (take 4 s, m, r3)) (rx_m (drop 5 s))"
    by (simp add: match_Ym_def rx_Y_eq lit_eq List.bind_def case_prod_unfold)
  have y: "py_int (take 4 s) \<le> 9999"
    using True by (simp add: py_int_year)
  show ?thesis
  proof (cases "rx_m (drop 5 s)")
    case Nil
    with rx_m_end [of "drop 5 s"] have "\<not> month_token (drop 5 s)"
      by (simp add: month_token_form split: if_splits)
    with Nil m show ?thesis
      by (simp add: strptime_Ym_def accepts_Ym_def)
  next
    case (Cons p ps)
    obtain t r where p: "p = (t, r)" by (cases p)
    from rx_m_end [of "drop 5 s"] Cons p
    have e: "(if r = [] then Some t else None) = (if month_token (drop 5 s) then Some (drop 5 s) else None)"
      by (simp add: month_token_form)
    show ?thesis
    proof (cases "month_token (drop 5 s)")
      case mt: True
      with e have "r = []" "t = drop 5 s" by (auto split: if_splits)
      with mt m Cons p True y month_token_range [OF mt]
        days_in_month_pos [of "py_int (take 4 s)" "py_int (drop 5 s)"]
      show ?thesis
        by (simp add: strptime_Ym_def accepts_Ym_def datetime_date_def)
    next
      case mf: False
      with e have "r \<noteq> []" by (auto split: if_splits)
      with mf m Cons p show ?thesis
        by (simp add: strptime_Ym_def accepts_Ym_def)
    qed
  qed
qed

lemma match_Ymd_eq:
  "match_Ymd s =
     (if length (take 4 s) = 4 \<and> list_all digit (take 4 s) \<and> take 1 (drop 4 s) = ''-''
         \<and> month_token (month_field s) \<and> take 1 (drop (5 + length (month_field s)) s) = ''-''
      then map (\<lambda>(d, r5). (take 4 s, month_field s, d, r5)) (rx_d (day_field s))
      else [])"
proof -
  have "List.bind (rx_d r) (\<lambda>(d, r5). [(y, m, d, r5)]) = map (\<lambda>(d, r5). (y, m, d, r5)) (rx_d r)"
    for r and y m :: string
    by (induction "rx_d r") (auto simp add: List.bind_def)
  then show ?thesis
    unfolding match_Ymd_def rx_m_dash
    by (simp add: rx_Y_eq lit_eq month_field_def day_field_def month_token_form Let_def
        add.commute)
qed

lemma strptime_Ymd_eq:
  "strptime_Ymd s =
     (if accepts_Ymd s
      then Inr (py_int (take 4 s), py_int (month_field s), py_int (day_field s))
      else Inl ValueError)"
proof (cases "length (take 4 s) = 4 \<and> list_all digit (take 4 s) \<and> take 1 (drop 4 s) = ''-''
              \<and> month_token (month_field s) \<and> take 1 (drop (5 + length (month_field s)) s) = ''-''")
  case False
  then have "match_Ymd s = []"
    unfolding match_Ymd_eq by (rule if_not_P)
  with False show ?thesis
    by (auto simp add: strptime_Ymd_def accepts_Ymd_def Let_def)
next
  case True
  then have m: "match_Ymd s =
      map (\<lambda>(d, r5). (take 4 s, month_field s, d, r5)) (rx_d (day_field s))"
    by (simp add: match_Ymd_eq)
  have y: "py_int (take 4 s) \<le> 9999"
    using True by (simp add: py_int_year)
  have mr: "1 \<le> py_int (month_field s) \<and> py_int (month_field s) \<le> 12"
    using True month_token_range [of "month_field s"] by blast
  show ?thesis
  proof (cases "rx_d (day_field s)")
    case Nil
    with rx_d_end [of "day_field s"] have "\<not> day_token (day_field s)"
      by (simp add: day_token_form split: if_splits)
    with Nil m show ?thesis
      by (simp add: strptime_Ymd_def accepts_Ymd_def Let_def)
  next
    case (Cons p ps)
    obtain t r where p: "p = (t, r)" by (cases p)
    from rx_d_end [of "day_field s"] Cons p
    have e: "(if r = [] then Some t else None)
               = (if day_token (day_field s) then Some (day_field s) else None)"
      by (simp add: day_token_form)
    show ?thesis
    proof (cases "day_token (day_field s)")
      case dt: True
      with e have "r = []" "t = day_field s" by (auto split: if_splits)
      with dt m Cons p True y mr day_token_range [OF dt]
      show ?thesis
        by (simp add: strptime_Ymd_def accepts_Ymd_def datetime_date_def Let_def)
    next
      case df: False
      with e have "r \<noteq> []" by (auto split: if_splits)
      with df m Cons p show ?thesis
        by (simp add: strptime_Ymd_def accepts_Ymd_def Let_def)
    qed
  qed
qed

section \<open>Evaluation, the constructor and saving\<close>

lemmas eval_defs = accepts_Ym_def accepts_Ymd_def month_field_def day_field_def month_token_def
  day_token_def digit_def cls_def less_eq_char_def py_int_def digit_val_def days_in_month_def
  is_leap_def strict_YYYY_MM_def strict_YYYY_MM_DD_def

lemma Transaction_eq:
  "Transaction ty amt dt desc =
     (if ty \<notin> set [''income'', ''expense''] \<or> amt < 0 \<or> \<not> accepts_Ymd dt then Inl ValueError
      else Inr \<lparr>ttype = ty, amount = amt, date = dt, description = desc\<rparr>)"
  by (simp add: Transaction_def strptime_Ymd_eq)

lemma accepts_2024_01: "accepts_Ym ''2024-01''"
  by (simp add: eval_defs)

lemma accepts_2024_02: "accepts_Ym ''2024-02''"
  by (simp add: eval_defs)

lemma accepts_2024_10: "accepts_Ym ''2024-10''"
  by (simp add: eval_defs)

lemma accepts_2024_1: "accepts_Ym ''2024-1''"
  by (simp add: eval_defs)

lemma rejects_2024_13: "\<not> accepts_Ym ''2024-13''"
  by (simp add: eval_defs)




lemma not_strict_2024_1: "\<not> strict_YYYY_MM ''2024-1''"
  by (simp add: eval_defs)

lemma not_strict_2024_1_dash: "\<not> strict_YYYY_MM ''2024-1-''"
  by (simp add: eval_defs)

lemma accepts_2024_02_29: "accepts_Ymd ''2024-02-29''"
  by (simp add: eval_defs)

lemma accepts_2024_01_05: "accepts_Ymd ''2024-01-05''"
  by (simp add: eval_defs)

lemma accepts_2024_01_15: "accepts_Ymd ''2024-01-15''"
  by (simp add: eval_defs)

lemma accepts_2024_1_5: "accepts_Ymd ''2024-1-5''"
  by (simp add: eval_defs)

lemma no_NUL_DATA_FILE: "\<not> has_NUL DATA_FILE"
  by (simp add: has_NUL_def DATA_FILE_def)

lemma save_raises_iff:
  "(\<exists>e. fst (save b fs) = Inl e) \<longleftrightarrow> has_NUL (data_file b) \<or> on_write fs (data_file b) \<noteq> Writes"
  by (simp add: save_def split: write_outcome.split)

lemma save_writes:
  "\<not> has_NUL (data_file b) \<Longrightarrow> on_write fs (data_file b) = Writes \<Longrightarrow>
   save b fs = (Inr (), fs\<lparr>files := (files fs)(data_file b \<mapsto> Parsed (to_json b))\<rparr>)"
  by (simp add: save_def)

lemma save_no_files:
  "data_file b = DATA_FILE \<Longrightarrow>
   save b no_files = (Inr (), no_files\<lparr>files := (files no_files)(DATA_FILE \<mapsto> Parsed (to_json b))\<rparr>)"
  by (simp add: save_def no_NUL_DATA_FILE) (simp add: no_files_def)

lemma save_locked_files:
  "data_file b = DATA_FILE \<Longrightarrow> save b locked_files = (Inl OSError, locked_files)"
  by (simp add: save_def no_NUL_DATA_FILE) (simp add: locked_files_def no_files_def)





lemma strict_prefix: "strict_YYYY_MM_DD d \<Longrightarrow> strict_YYYY_MM (take 7 d)"
  by (simp add: strict_YYYY_MM_def strict_YYYY_MM_DD_def drop_take)

lemma expense_B:
  "fst (summary scenario_B no_files (Some ''2024-01'') ''2026-11'') = Inr s \<Longrightarrow> expense s = 400"
  by (auto simp add: summary_def summary_with_def strptime_Ym_eq accepts_2024_01 Let_def
      scenario_B_def py_sum_def startswith_def)

lemma expense_C:
  "fst (summary scenario_C no_files (Some ''2024-02'') ''2026-11'') = Inr s \<Longrightarrow> expense s = 500"
  by (auto simp add: summary_def summary_with_def strptime_Ym_eq accepts_2024_02 Let_def
      scenario_C_def py_sum_def startswith_def)

lemma months_D: "fst (months scenario_D no_files) = [''2024-01'', ''2024-03'']"
  by (simp add: months_def scenario_D_def less_eq_char_def less_char_def)

lemma months_unpadded: "fst (months unpadded_store no_files) = [''2024-01'', ''2024-1-'']"
  by (simp add: months_def unpadded_store_def less_eq_char_def less_char_def)

subsection \<open>The strict forms among the accepted strings\<close>


lemma digit_not_dash: "digit c \<Longrightarrow> c \<noteq> CHR ''-''"
  by (auto simp add: digit_nat)

lemma length_10_obtain:
  assumes "length s = 10"
  obtains a b c d e f g h i j where "s = [a, b, c, d, e, f, g, h, i, j]"
  using assms by (auto simp add: eval_nat_numeral length_Suc_conv)

lemma strict_YYYY_MM_DD_accepts:
  assumes "strict_YYYY_MM_DD s"
  shows "accepts_Ymd s \<longleftrightarrow> 1 \<le> py_int (take 4 s)"
proof -
  from assms have "length s = 10" by (simp add: strict_YYYY_MM_DD_def)
  then obtain a b c d e f g h i j where s: "s = [a, b, c, d, e, f, g, h, i, j]"
    by (rule length_10_obtain)
  from assms s have fg: "digit f" "digit g" and e: "e = CHR ''-''" and h: "h = CHR ''-''"
    by (simp_all add: strict_YYYY_MM_DD_def)
  then have mf: "month_field s = [f, g]"
    by (simp add: month_field_def s digit_not_dash)
  then have df: "day_field s = [i, j]"
    by (simp add: day_field_def s)
  from assms s mf df e h show ?thesis
    by (auto simp add: accepts_Ymd_def strict_YYYY_MM_DD_def month_token_def day_token_def Let_def
        days_in_month_def split: if_splits)
qed

subsection \<open>Loading\<close>

lemma Transaction_kwargs_typed:
  "Transaction_kwargs (JObj [(''type'', JStr ty), (''amount'', JNum a), (''date'', JStr d),
                              (''description'', JStr s)]) = Some (Transaction ty a d s)"
  by (simp add: Transaction_kwargs_def post_init_json_def Transaction_def split: sum.split)

lemma Transaction_kwargs_asdict:
  "valid_transaction t \<Longrightarrow> Transaction_kwargs (asdict t) = Some (Inr t)"
  by (simp add: asdict_def Transaction_kwargs_typed Transaction_eq valid_transaction_def)

lemma load_transactions_asdict:
  "list_all valid_transaction ts \<Longrightarrow> load_transactions (map asdict ts) = Some (Inr ts)"
  by (induction ts) (simp_all add: Transaction_kwargs_asdict)

lemma limits_of_json_JNum:
  "limits_of_json (map (\<lambda>(k, v). (k, JNum v)) ls) = Some ls"
  by (induction ls) auto

lemma load_body_saved:
  "well_formed b \<Longrightarrow> load_body (to_json b) = Some (Inr (transactions b, expense_limits b))"
  by (simp add: load_body_def to_json_def dict_get_def iterate_def load_transactions_asdict
      limits_of_json_JNum well_formed_def)

lemma load_transactions_raises:
  "t \<in> set ts \<Longrightarrow> Transaction_kwargs t = Some (Inl e) \<Longrightarrow> \<exists>e'. load_transactions ts = Some (Inl e')"
proof (induction ts)
  case Nil
  then show ?case by simp
next
  case (Cons x xs)
  show ?case
  proof (cases "Transaction_kwargs x")
    case None
    with Cons show ?thesis by auto
  next
    case (Some r)
    with Cons show ?thesis by (cases r) auto
  qed
qed

lemma load_body_raises:
  assumes "map_of kvs ''transactions'' = Some (JArr ts)"
    and "t \<in> set ts" and "Transaction_kwargs t = Some (Inl e)"
  shows "\<exists>e'. load_body (JObj kvs) = Some (Inl e')"
  using load_transactions_raises [OF assms(2,3)] assms(1)
  by (auto simp add: load_body_def dict_get_def iterate_def)

subsection \<open>Every store the program builds holds only accepted transactions\<close>

lemma Transaction_valid: "Transaction ty amt dt desc = Inr t \<Longrightarrow> valid_transaction t"
  by (auto simp add: Transaction_eq valid_transaction_def split: if_splits)

lemma well_formed_add_transaction:
  "well_formed b \<Longrightarrow> well_formed (fst (snd (add_transaction b fs ty amt dt desc)))"
  by (auto simp add: add_transaction_def well_formed_def Let_def Transaction_valid
      split: sum.splits prod.splits)

lemma well_formed_set_limit:
  "well_formed b \<Longrightarrow> well_formed (fst (snd (set_limit b fs mon lim)))"
  by (auto simp add: set_limit_def well_formed_def Let_def split: sum.splits prod.splits)

lemma post_init_json_valid: "post_init_json ty amt dt desc = Some (Inr t) \<Longrightarrow> valid_transaction t"
  by (auto simp add: post_init_json_def valid_transaction_def strptime_Ymd_eq
      split: if_splits json.splits sum.splits)

lemma Transaction_kwargs_valid: "Transaction_kwargs j = Some (Inr t) \<Longrightarrow> valid_transaction t"
  by (auto simp add: Transaction_kwargs_def post_init_json_valid
      split: json.splits option.splits if_splits)

lemma load_transactions_valid:
  "load_transactions js = Some (Inr ts) \<Longrightarrow> list_all valid_transaction ts"
  by (induction js arbitrary: ts)
    (auto simp add: Transaction_kwargs_valid split: option.splits sum.splits)

lemma well_formed_BudgetTracker:
  "BudgetTracker path fs = Some (r, b, fs') \<Longrightarrow> well_formed b"
  by (auto simp add: BudgetTracker_def load_def load_body_def well_formed_def
      load_transactions_valid
      split: option.splits document.splits sum.splits json.splits)

lemma well_formed_B: "well_formed scenario_B"
  by (simp add: well_formed_def scenario_B_def valid_transaction_def eval_defs)

section \<open>The claims\<close>

subsection \<open>C1: when a transaction is rejected\<close>

text \<open>
  C1, as amended. The constructor \<open>Transaction\<close> raises exactly when the kind is neither
  \<^verbatim>\<open>income\<close> nor \<^verbatim>\<open>expense\<close>, or the amount is below 0, or the date is not one that
  \<^verbatim>\<open>strptime\<close> accepts for \<^verbatim>\<open>%Y-%m-%d\<close>: a four-digit year from 0001, a dash, a month
  1 to 12 written with one or two digits, a dash, and a day written with one or two digits
  (or a blank and a digit) that exists in that month of that year. It then raises
  \<^verbatim>\<open>ValueError\<close> and returns no transaction, and \<open>add_transaction\<close> raises the same
  and leaves the store and the file as they were. When the constructor accepts,
  \<open>add_transaction\<close> appends the transaction and then saves: it returns or raises what
  \<open>save\<close> returns or raises, with the transaction appended in either case. So
  \<open>add_transaction\<close> raises exactly when the constructor rejects or the file cannot be
  written. The strings are those of the model, with characters below 256, among which
  the digits are the ten ASCII digits.
\<close>

theorem add_transaction_raises_iff:
  fixes b :: "'a::{zero,ord} tracker"
  shows "((\<exists>e. Transaction ty amt dt desc = Inl e)
            \<longleftrightarrow> ty \<notin> set [''income'', ''expense''] \<or> amt < 0 \<or> \<not> accepts_Ymd dt)
       \<and> (ty \<notin> set [''income'', ''expense''] \<or> amt < 0 \<or> \<not> accepts_Ymd dt
            \<longrightarrow> Transaction ty amt dt desc = Inl ValueError
              \<and> add_transaction b fs ty amt dt desc = (Inl ValueError, b, fs))
       \<and> (\<not> (ty \<notin> set [''income'', ''expense''] \<or> amt < 0 \<or> \<not> accepts_Ymd dt)
            \<longrightarrow> (\<exists>b'. transactions b' = transactions b
                            @ [\<lparr>ttype = ty, amount = amt, date = dt, description = desc\<rparr>]
                     \<and> expense_limits b' = expense_limits b \<and> data_file b' = data_file b
                     \<and> add_transaction b fs ty amt dt desc
                         = (fst (save b' fs), b', snd (save b' fs))))
       \<and> ((\<exists>e. fst (add_transaction b fs ty amt dt desc) = Inl e)
            \<longleftrightarrow> (ty \<notin> set [''income'', ''expense''] \<or> amt < 0 \<or> \<not> accepts_Ymd dt)
                \<or> has_NUL (data_file b) \<or> on_write fs (data_file b) \<noteq> Writes)"
proof (cases "ty \<notin> set [''income'', ''expense''] \<or> amt < 0 \<or> \<not> accepts_Ymd dt")
  case True
  then show ?thesis
    by (simp add: add_transaction_def Transaction_eq)
next
  case False
  let ?b = "b\<lparr>transactions := transactions b
              @ [\<lparr>ttype = ty, amount = amt, date = dt, description = desc\<rparr>]\<rparr>"
  from False have a: "add_transaction b fs ty amt dt desc = (fst (save ?b fs), ?b, snd (save ?b fs))"
    by (simp add: add_transaction_def Transaction_eq Let_def case_prod_unfold)
  have "\<exists>b'. transactions b' = transactions b
                  @ [\<lparr>ttype = ty, amount = amt, date = dt, description = desc\<rparr>]
           \<and> expense_limits b' = expense_limits b \<and> data_file b' = data_file b
           \<and> add_transaction b fs ty amt dt desc = (fst (save b' fs), b', snd (save b' fs))"
    using a by (intro exI [of _ ?b]) simp
  moreover have "(\<exists>e. fst (add_transaction b fs ty amt dt desc) = Inl e)
      \<longleftrightarrow> has_NUL (data_file b) \<or> on_write fs (data_file b) \<noteq> Writes"
    using save_raises_iff [of ?b fs] by (simp add: a)
  ultimately show ?thesis
    using False by (simp add: Transaction_eq)
qed

theorem add_transaction_raises_iff_witness:
  "add_transaction (empty_tracker DATA_FILE) no_files ''salary'' (5::int) ''2024-01-05'' ''pay''
     = (Inl ValueError, empty_tracker DATA_FILE, no_files)
   \<and> add_transaction (empty_tracker DATA_FILE) no_files ''income'' (-5::int) ''2024-01-05'' ''pay''
     = (Inl ValueError, empty_tracker DATA_FILE, no_files)
   \<and> add_transaction (empty_tracker DATA_FILE) no_files ''income'' (5::int) ''2024-02-30'' ''pay''
     = (Inl ValueError, empty_tracker DATA_FILE, no_files)
   \<and> (\<nexists>e. fst (add_transaction (empty_tracker DATA_FILE) no_files
                   ''income'' (5::int) ''2024-02-29'' ''pay'') = Inl e)
   \<and> (\<exists>e. fst (add_transaction (empty_tracker DATA_FILE) locked_files
                   ''income'' (5::int) ''2024-02-29'' ''pay'') = Inl e)"
proof -
  have d: "data_file (empty_tracker DATA_FILE :: int tracker) = DATA_FILE"
    by (simp add: empty_tracker_def)
  have w: "on_write (no_files :: int fs) DATA_FILE = Writes"
    and l: "on_write locked_files DATA_FILE \<noteq> Writes"
    by (simp_all add: no_files_def locked_files_def)
  have r: "\<not> accepts_Ymd ''2024-02-30''"
    by (simp add: eval_defs)
  show ?thesis
    using
      add_transaction_raises_iff [of "''salary''" "5::int" "''2024-01-05''" "''pay''"
        "empty_tracker DATA_FILE" no_files]
      add_transaction_raises_iff [of "''income''" "-5::int" "''2024-01-05''" "''pay''"
        "empty_tracker DATA_FILE" no_files]
      add_transaction_raises_iff [of "''income''" "5::int" "''2024-02-30''" "''pay''"
        "empty_tracker DATA_FILE" no_files]
      add_transaction_raises_iff [of "''income''" "5::int" "''2024-02-29''" "''pay''"
        "empty_tracker DATA_FILE" no_files]
      add_transaction_raises_iff [of "''income''" "5::int" "''2024-02-29''" "''pay''"
        "empty_tracker DATA_FILE" locked_files]
    by (simp add: d w l r accepts_2024_02_29 no_NUL_DATA_FILE)
qed

text \<open>
  C1 as the specification states it fails: \<^verbatim>\<open>2024-1-5\<close> is not in the strict form and is
  accepted; \<^verbatim>\<open>0000-01-01\<close> is in the strict form and is rejected; and where the file
  cannot be opened for writing, a call with accepted values raises after it has appended
  the transaction.
\<close>

theorem strict_date_counterexample:
  "\<not> strict_YYYY_MM_DD ''2024-1-5''
   \<and> fst (add_transaction (empty_tracker DATA_FILE) no_files
            ''income'' (5::int) ''2024-1-5'' ''pay'') = Inr ()
   \<and> strict_YYYY_MM_DD ''0000-01-01''
   \<and> fst (add_transaction (empty_tracker DATA_FILE) no_files
            ''income'' (5::int) ''0000-01-01'' ''pay'') = Inl ValueError
   \<and> strict_YYYY_MM_DD ''2024-01-05''
   \<and> fst (add_transaction (empty_tracker DATA_FILE) locked_files
            ''income'' (5::int) ''2024-01-05'' ''pay'') = Inl OSError
   \<and> transactions (fst (snd (add_transaction (empty_tracker DATA_FILE) locked_files
            ''income'' (5::int) ''2024-01-05'' ''pay'')))
       = [\<lparr>ttype = ''income'', amount = 5, date = ''2024-01-05'', description = ''pay''\<rparr>]"
proof -
  have s: "\<not> strict_YYYY_MM_DD ''2024-1-5''" "strict_YYYY_MM_DD ''0000-01-01''"
    "strict_YYYY_MM_DD ''2024-01-05''" "\<not> accepts_Ymd ''0000-01-01''"
    by (simp_all add: eval_defs)
  show ?thesis
    by (simp add: s add_transaction_def Transaction_eq accepts_2024_1_5 accepts_2024_01_05 Let_def
        save_no_files save_locked_files empty_tracker_def)
qed

subsection \<open>C2: setting a limit\<close>

text \<open>
  C2, as amended. \<open>set_limit\<close> rejects a month exactly when it is not one that
  \<^verbatim>\<open>strptime\<close> accepts for \<^verbatim>\<open>%Y-%m\<close>: a four-digit year from 0001, a dash, and a month
  1 to 12 written with one or two digits. It then raises \<^verbatim>\<open>ValueError\<close> and leaves the
  store and the file as they were. The limit itself is not examined. On an accepted month
  the limit, whatever its sign, is stored under the month string as it is written,
  replacing the limit stored under that same string (the last write wins) and leaving
  every other key and the transactions as they were; then the store is saved, and
  \<open>set_limit\<close> returns or raises what \<open>save\<close> returns or raises, with the limit stored
  in either case. So \<open>set_limit\<close> raises exactly when the month is rejected or the file
  cannot be written. The strings are those of the model, with characters below 256, among
  which the digits are the ten ASCII digits.
\<close>

theorem set_limit_validation:
  "(\<not> accepts_Ym mon \<longrightarrow> set_limit b fs mon lim = (Inl ValueError, b, fs))
   \<and> (accepts_Ym mon \<longrightarrow>
        (\<exists>b'. set_limit b fs mon lim = (fst (save b' fs), b', snd (save b' fs))
           \<and> map_of (expense_limits b') = (map_of (expense_limits b))(mon \<mapsto> lim)
           \<and> (\<forall>k. k \<noteq> mon \<longrightarrow> map_of (expense_limits b') k = map_of (expense_limits b) k)
           \<and> transactions b' = transactions b \<and> data_file b' = data_file b))
   \<and> ((\<exists>e. fst (set_limit b fs mon lim) = Inl e)
        \<longleftrightarrow> \<not> accepts_Ym mon \<or> has_NUL (data_file b) \<or> on_write fs (data_file b) \<noteq> Writes)"
proof (cases "accepts_Ym mon")
  case False
  then show ?thesis
    by (simp add: set_limit_def strptime_Ym_eq)
next
  case True
  let ?b = "b\<lparr>expense_limits := AList.update mon lim (expense_limits b)\<rparr>"
  from True have a: "set_limit b fs mon lim = (fst (save ?b fs), ?b, snd (save ?b fs))"
    by (simp add: set_limit_def strptime_Ym_eq Let_def case_prod_unfold)
  have "\<exists>b'. set_limit b fs mon lim = (fst (save b' fs), b', snd (save b' fs))
           \<and> map_of (expense_limits b') = (map_of (expense_limits b))(mon \<mapsto> lim)
           \<and> (\<forall>k. k \<noteq> mon \<longrightarrow> map_of (expense_limits b') k = map_of (expense_limits b) k)
           \<and> transactions b' = transactions b \<and> data_file b' = data_file b"
    using a by (intro exI [of _ ?b]) (simp add: update_conv')
  moreover have "(\<exists>e. fst (set_limit b fs mon lim) = Inl e)
      \<longleftrightarrow> has_NUL (data_file b) \<or> on_write fs (data_file b) \<noteq> Writes"
    using save_raises_iff [of ?b fs] by (simp add: a)
  ultimately show ?thesis
    using True by simp
qed

theorem set_limit_validation_witness:
  "set_limit limit_store no_files ''2024-13'' 100 = (Inl ValueError, limit_store, no_files)
   \<and> fst (set_limit limit_store no_files ''2024-01'' 250) = Inr ()
   \<and> map_of (expense_limits (fst (snd (set_limit limit_store no_files ''2024-01'' 250)))) ''2024-01''
       = Some 250
   \<and> (\<exists>e. fst (set_limit limit_store locked_files ''2024-01'' 250) = Inl e)"
proof -
  have d: "data_file limit_store = DATA_FILE"
    by (simp add: limit_store_def)
  have w: "on_write (no_files :: int fs) DATA_FILE = Writes"
    and l: "on_write locked_files DATA_FILE \<noteq> Writes"
    by (simp_all add: no_files_def locked_files_def)
  from set_limit_validation [of "''2024-13''" limit_store no_files 100] rejects_2024_13
  have 1: "set_limit limit_store no_files ''2024-13'' 100 = (Inl ValueError, limit_store, no_files)"
    by blast
  from set_limit_validation [of "''2024-01''" limit_store no_files 250] accepts_2024_01
  obtain b' where s: "set_limit limit_store no_files ''2024-01'' 250
        = (fst (save b' no_files), b', snd (save b' no_files))"
    and m: "map_of (expense_limits b') = (map_of (expense_limits limit_store))(''2024-01'' \<mapsto> 250)"
    and n: "\<not> (\<exists>e. fst (set_limit limit_store no_files ''2024-01'' 250) = Inl e)"
    by (auto simp add: d w no_NUL_DATA_FILE)
  from n have 2: "fst (set_limit limit_store no_files ''2024-01'' 250) = Inr ()"
    by (cases "fst (set_limit limit_store no_files ''2024-01'' 250)") auto
  from s m
  have 3: "map_of (expense_limits (fst (snd (set_limit limit_store no_files ''2024-01'' 250))))
              ''2024-01'' = Some 250"
    by simp
  from set_limit_validation [of "''2024-01''" limit_store locked_files 250] accepts_2024_01
  have 4: "\<exists>e. fst (set_limit limit_store locked_files ''2024-01'' 250) = Inl e"
    by (simp add: d l)
  from 1 2 3 4 show ?thesis by blast
qed

text \<open>
  C2 as the specification states it fails: \<^verbatim>\<open>2024-1\<close> is not in the strict form and is
  accepted, and its limit is kept beside the one of \<^verbatim>\<open>2024-01\<close>; a negative limit is
  accepted and stored; and where the file cannot be opened for writing, a call with an
  accepted month raises after it has stored the limit.
\<close>

theorem set_limit_counterexample:
  "\<not> strict_YYYY_MM ''2024-1''
   \<and> fst (set_limit limit_store no_files ''2024-1'' 100) = Inr ()
   \<and> expense_limits (fst (snd (set_limit limit_store no_files ''2024-1'' 100)))
       = [(''2024-01'', 300), (''2024-1'', 100)]
   \<and> fst (set_limit limit_store no_files ''2024-01'' (- 5)) = Inr ()
   \<and> expense_limits (fst (snd (set_limit limit_store no_files ''2024-01'' (- 5))))
       = [(''2024-01'', - 5)]
   \<and> fst (set_limit limit_store locked_files ''2024-02'' 50) = Inl OSError
   \<and> expense_limits (fst (snd (set_limit limit_store locked_files ''2024-02'' 50)))
       = [(''2024-01'', 300), (''2024-02'', 50)]"
  by (simp add: set_limit_def strptime_Ym_eq accepts_2024_01 accepts_2024_02 accepts_2024_1
      not_strict_2024_1 Let_def save_no_files save_locked_files limit_store_def)

subsection \<open>C3: the sums of a month\<close>




subsection \<open>C4: the status\<close>

text \<open>
  C4. For every store and every month the validation accepts, the status is
  \<^verbatim>\<open>No limit set\<close> when no limit is stored for the month; otherwise \<^verbatim>\<open>Within limit\<close>
  when the expense of the summary is at most the limit (equality included), and
  \<^verbatim>\<open>Limit exceeded\<close> when it is not. This holds however the builtin computes its sums.
\<close>

theorem summary_status:
  fixes b :: "'a::{minus,ord} tracker"
  assumes "accepts_Ym m"
  shows "\<exists>s. fst (summary_with sm b fs (Some m) now) = Inr s
     \<and> limit s = map_of (expense_limits b) m
     \<and> status s = (case map_of (expense_limits b) m of
                      None \<Rightarrow> ''No limit set''
                    | Some l \<Rightarrow> if expense s \<le> l then ''Within limit'' else ''Limit exceeded'')"
  using assms by (simp add: summary_with_def strptime_Ym_eq Let_def split: option.split)

theorem summary_status_witness:
  "(\<exists>s. fst (summary scenario_A no_files (Some ''2024-01'') ''2026-11'') = Inr s
         \<and> limit s = None \<and> status s = ''No limit set'')
   \<and> (\<exists>s. fst (summary scenario_B no_files (Some ''2024-01'') ''2026-11'') = Inr s
         \<and> expense s = 400 \<and> limit s = Some 300 \<and> status s = ''Limit exceeded'')
   \<and> (\<exists>s. fst (summary scenario_C no_files (Some ''2024-02'') ''2026-11'') = Inr s
         \<and> expense s = 500 \<and> limit s = Some 500 \<and> status s = ''Within limit'')"
proof -
  from summary_status [OF accepts_2024_01, of py_sum scenario_A no_files "''2026-11''"]
  have 1: "\<exists>s. fst (summary scenario_A no_files (Some ''2024-01'') ''2026-11'') = Inr s
         \<and> limit s = None \<and> status s = ''No limit set''"
    by (simp add: scenario_A_def summary_def)
  from summary_status [OF accepts_2024_01, of py_sum scenario_B no_files "''2026-11''"]
  obtain s where s: "fst (summary scenario_B no_files (Some ''2024-01'') ''2026-11'') = Inr s"
    and l: "limit s = Some 300"
    and t: "status s = (if expense s \<le> 300 then ''Within limit'' else ''Limit exceeded'')"
    by (auto simp add: scenario_B_def summary_def)
  from expense_B [OF s] t have "status s = ''Limit exceeded''" by simp
  with s l expense_B [OF s]
  have 2: "\<exists>s. fst (summary scenario_B no_files (Some ''2024-01'') ''2026-11'') = Inr s
         \<and> expense s = 400 \<and> limit s = Some 300 \<and> status s = ''Limit exceeded''"
    by blast
  from summary_status [OF accepts_2024_02, of py_sum scenario_C no_files "''2026-11''"]
  obtain u where u: "fst (summary scenario_C no_files (Some ''2024-02'') ''2026-11'') = Inr u"
    and lu: "limit u = Some 500"
    and tu: "status u = (if expense u \<le> 500 then ''Within limit'' else ''Limit exceeded'')"
    by (auto simp add: scenario_C_def summary_def)
  from expense_C [OF u] tu have "status u = ''Within limit''" by simp
  with u lu expense_C [OF u]
  have 3: "\<exists>s. fst (summary scenario_C no_files (Some ''2024-02'') ''2026-11'') = Inr s
         \<and> expense s = 500 \<and> limit s = Some 500 \<and> status s = ''Within limit''"
    by blast
  from 1 2 3 show ?thesis by blast
qed

subsection \<open>C5: adding a transaction\<close>

text \<open>
  C5. For every kind, amount and date that the constructor accepts, and every
  description, \<open>add_transaction\<close> makes the new sequence the old one followed by one
  transaction holding the four values: it is longer by one and starts with the old
  sequence, in its order. The limits stay as they were. The call then saves, and returns
  what \<open>save\<close> returns: normally, where the file can be written.
\<close>

theorem add_transaction_appends:
  fixes b :: "'a::{zero,ord} tracker"
  assumes "ty \<in> set [''income'', ''expense'']" and "\<not> amt < 0" and "accepts_Ymd dt"
  shows "\<exists>r b' fs'. add_transaction b fs ty amt dt desc = (r, b', fs')
     \<and> transactions b' = transactions b @ [\<lparr>ttype = ty, amount = amt, date = dt, description = desc\<rparr>]
     \<and> length (transactions b') = length (transactions b) + 1
     \<and> take (length (transactions b)) (transactions b') = transactions b
     \<and> expense_limits b' = expense_limits b
     \<and> (r, fs') = save b' fs
     \<and> (\<not> has_NUL (data_file b) \<and> on_write fs (data_file b) = Writes \<longrightarrow> r = Inr ())"
proof -
  let ?b = "b\<lparr>transactions := transactions b
              @ [\<lparr>ttype = ty, amount = amt, date = dt, description = desc\<rparr>]\<rparr>"
  from assms have a: "add_transaction b fs ty amt dt desc = (fst (save ?b fs), ?b, snd (save ?b fs))"
    by (simp add: add_transaction_def Transaction_eq Let_def case_prod_unfold)
  have w: "fst (save ?b fs) = Inr ()"
    if "\<not> has_NUL (data_file b) \<and> on_write fs (data_file b) = Writes"
    using that by (simp add: save_def)
  show ?thesis
    using a w
    by (intro exI [of _ "fst (save ?b fs)"] exI [of _ ?b] exI [of _ "snd (save ?b fs)"]) simp
qed

theorem add_transaction_appends_witness:
  "\<exists>b' fs'. add_transaction scenario_C no_files ''income'' 20 ''2024-02-29'' ''gift'' = (Inr (), b', fs')
     \<and> transactions b' =
         [\<lparr>ttype = ''expense'', amount = 500, date = ''2024-02-01'', description = ''car''\<rparr>,
          \<lparr>ttype = ''income'', amount = 20, date = ''2024-02-29'', description = ''gift''\<rparr>]
     \<and> length (transactions b') = 2"
proof -
  have k: "''income'' \<in> set [''income'', ''expense'']" and a: "\<not> (20::int) < 0"
    by simp_all
  have w: "\<not> has_NUL (data_file scenario_C) \<and> on_write (no_files :: int fs) (data_file scenario_C) = Writes"
    by (simp add: scenario_C_def no_NUL_DATA_FILE no_files_def)
  from add_transaction_appends [OF k a accepts_2024_02_29, of scenario_C no_files "''gift''"] w
  obtain b' fs' where
    r: "add_transaction scenario_C no_files ''income'' 20 ''2024-02-29'' ''gift'' = (Inr (), b', fs')"
    and t: "transactions b' = transactions scenario_C
              @ [\<lparr>ttype = ''income'', amount = 20, date = ''2024-02-29'', description = ''gift''\<rparr>]"
    by blast
  from t have "transactions b' =
         [\<lparr>ttype = ''expense'', amount = 500, date = ''2024-02-01'', description = ''car''\<rparr>,
          \<lparr>ttype = ''income'', amount = 20, date = ''2024-02-29'', description = ''gift''\<rparr>]"
    by (simp add: scenario_C_def)
  with r show ?thesis by simp
qed

subsection \<open>C6: the months with data\<close>

text \<open>
  C6, as amended. For every store, \<open>months\<close> returns a list whose elements are exactly
  the first seven characters of the dates of the transactions; the list is sorted in the
  lexicographic order of strings and has no duplicates; it is empty when the store holds no
  transaction. Its elements are strings of the form \<^verbatim>\<open>YYYY-MM\<close> when every date is in
  the form \<^verbatim>\<open>YYYY-MM-DD\<close>.
\<close>

theorem months_sorted_distinct:
  "set (fst (months b fs)) = (\<lambda>t. take 7 (date t)) ` set (transactions b)
   \<and> sorted (fst (months b fs)) \<and> distinct (fst (months b fs))
   \<and> (transactions b = [] \<longrightarrow> fst (months b fs) = [])
   \<and> ((\<forall>t \<in> set (transactions b). strict_YYYY_MM_DD (date t))
        \<longrightarrow> (\<forall>m \<in> set (fst (months b fs)). strict_YYYY_MM m))"
  by (auto simp add: months_def strict_prefix)

theorem months_sorted_distinct_witness:
  "fst (months scenario_D no_files) = [''2024-01'', ''2024-03'']
   \<and> sorted (fst (months scenario_D no_files)) \<and> distinct (fst (months scenario_D no_files))
   \<and> fst (months (empty_tracker DATA_FILE :: int tracker) no_files) = []"
proof -
  from months_sorted_distinct [of scenario_D no_files]
  have "sorted (fst (months scenario_D no_files))" and "distinct (fst (months scenario_D no_files))"
    by blast+
  moreover from months_sorted_distinct [of "empty_tracker DATA_FILE :: int tracker" no_files]
  have "fst (months (empty_tracker DATA_FILE :: int tracker) no_files) = []"
    by (simp add: empty_tracker_def)
  ultimately show ?thesis using months_D by simp
qed

text \<open>
  C6 as the specification states it fails on a store the program builds: after two
  accepted calls of \<open>add_transaction\<close>, with the dates \<^verbatim>\<open>2024-01-15\<close> and \<^verbatim>\<open>2024-1-5\<close>
  of the same month, \<open>months\<close> returns two elements, and the second is not of the form
  \<^verbatim>\<open>YYYY-MM\<close>.
\<close>

theorem months_unpadded_counterexample:
  "add_transaction (empty_tracker DATA_FILE) no_files ''income'' 10 ''2024-01-15'' ''a''
     = (Inr (), january_15_store, snd (save january_15_store no_files))
   \<and> fst (add_transaction january_15_store (snd (save january_15_store no_files))
             ''expense'' 5 ''2024-1-5'' ''b'') = Inr ()
   \<and> fst (snd (add_transaction january_15_store (snd (save january_15_store no_files))
             ''expense'' 5 ''2024-1-5'' ''b'')) = unpadded_store
   \<and> fst (months unpadded_store no_files) = [''2024-01'', ''2024-1-'']
   \<and> \<not> strict_YYYY_MM ''2024-1-''"
proof -
  let ?fs = "snd (save january_15_store no_files)"
  have d1: "data_file january_15_store = DATA_FILE" and d2: "data_file unpadded_store = DATA_FILE"
    by (simp_all add: january_15_store_def unpadded_store_def)
  have s1: "fst (save january_15_store no_files) = Inr ()"
    by (simp add: save_no_files [OF d1])
  have a1: "add_transaction (empty_tracker DATA_FILE) no_files ''income'' 10 ''2024-01-15'' ''a''
     = (Inr (), january_15_store, ?fs)"
    using s1
    by (simp add: add_transaction_def Transaction_eq accepts_2024_01_15 Let_def case_prod_unfold
        empty_tracker_def january_15_store_def)
  have w: "on_write ?fs DATA_FILE = Writes"
    by (simp add: save_no_files [OF d1]) (simp add: no_files_def)
  have s2: "fst (save unpadded_store ?fs) = Inr ()"
    using save_writes [of unpadded_store ?fs] w by (simp add: d2 no_NUL_DATA_FILE)
  have a2: "add_transaction january_15_store ?fs ''expense'' 5 ''2024-1-5'' ''b''
     = (Inr (), unpadded_store, snd (save unpadded_store ?fs))"
    using s2
    by (simp add: add_transaction_def Transaction_eq accepts_2024_1_5 Let_def case_prod_unfold
        january_15_store_def unpadded_store_def)
  from a1 a2 months_unpadded not_strict_2024_1_dash show ?thesis
    by simp
qed

subsection \<open>C7: saving and loading again\<close>

text \<open>
  C7. For every store whose transactions are all ones the constructor accepts (every
  store the program builds is such), once \<open>save\<close> has written it, constructing a tracker
  on the same path, or loading into any tracker with that path, gives the same store: the
  same transactions in the same order and the same limits.
\<close>

theorem save_load_roundtrip:
  fixes b :: "'a::{zero,ord} tracker"
  assumes "well_formed b" and "save b fs = (Inr (), fs')"
  shows "BudgetTracker (data_file b) fs' = Some (Inr (), b, fs')
     \<and> (data_file b0 = data_file b \<longrightarrow> load b0 fs' = Some (Inr (), b, fs'))"
proof -
  from assms(2) have n: "\<not> has_NUL (data_file b)"
    and f: "fs' = fs\<lparr>files := (files fs)(data_file b \<mapsto> Parsed (to_json b))\<rparr>"
    by (auto simp add: save_def split: if_splits write_outcome.splits)
  then have "lookup_file fs' (data_file b) = Some (Parsed (to_json b))"
    by (simp add: lookup_file_def)
  then show ?thesis
    using load_body_saved [OF assms(1)]
    by (simp add: BudgetTracker_def load_def)
qed

theorem save_load_roundtrip_witness:
  "fst (save scenario_B no_files) = Inr ()
   \<and> BudgetTracker (data_file scenario_B) (snd (save scenario_B no_files))
       = Some (Inr (), scenario_B, snd (save scenario_B no_files))"
proof -
  have d: "data_file scenario_B = DATA_FILE"
    by (simp add: scenario_B_def)
  have f: "fst (save scenario_B no_files) = Inr ()"
    by (simp add: save_no_files [OF d])
  then have s: "save scenario_B no_files = (Inr (), snd (save scenario_B no_files))"
    by (metis prod.collapse)
  from save_load_roundtrip [OF well_formed_B s, of "empty_tracker DATA_FILE"] f
  show ?thesis by blast
qed

subsection \<open>C8: loading never fails\<close>

text \<open>
  C8. Constructing a tracker gives the empty store when the file is absent, when it
  cannot be parsed, when the body of the \<^verbatim>\<open>try\<close> block raises on the parsed document,
  and in particular when one of the entries of its transaction list makes the constructor
  of \<open>Transaction\<close> raise. Whenever the constructor of the tracker returns, it returns
  normally and leaves the file system as it was: no failure reaches the caller.
\<close>

theorem load_swallows_failure:
  fixes fs :: "'a::{zero,ord} fs"
  shows "(lookup_file fs path = None
          \<longrightarrow> BudgetTracker path fs = Some (Inr (), empty_tracker path, fs))
     \<and> (lookup_file fs path = Some Unparsable
          \<longrightarrow> BudgetTracker path fs = Some (Inr (), empty_tracker path, fs))
     \<and> (lookup_file fs path = Some (Parsed d) \<and> load_body d = Some (Inl e)
          \<longrightarrow> BudgetTracker path fs = Some (Inr (), empty_tracker path, fs))
     \<and> (lookup_file fs path = Some (Parsed (JObj kvs))
          \<and> map_of kvs ''transactions'' = Some (JArr ts)
          \<and> t \<in> set ts \<and> Transaction_kwargs t = Some (Inl e)
          \<longrightarrow> BudgetTracker path fs = Some (Inr (), empty_tracker path, fs))
     \<and> (BudgetTracker path fs = Some (r, b', fs') \<longrightarrow> r = Inr () \<and> fs' = fs)"
proof -
  have 4: "BudgetTracker path fs = Some (Inr (), empty_tracker path, fs)"
    if "lookup_file fs path = Some (Parsed (JObj kvs))" "map_of kvs ''transactions'' = Some (JArr ts)"
      "t \<in> set ts" "Transaction_kwargs t = Some (Inl e)"
    using load_body_raises [OF that(2,3,4)] that(1)
    by (auto simp add: BudgetTracker_def load_def empty_tracker_def)
  have 5: "r = Inr () \<and> fs' = fs" if "BudgetTracker path fs = Some (r, b', fs')"
    using that
    by (auto simp add: BudgetTracker_def load_def split: option.splits document.splits sum.splits)
  show ?thesis
    using 4 5 by (auto simp add: BudgetTracker_def load_def empty_tracker_def)
qed

theorem load_swallows_failure_witness:
  "BudgetTracker DATA_FILE (no_files :: int fs) = Some (Inr (), empty_tracker DATA_FILE, no_files)
   \<and> BudgetTracker DATA_FILE corrupt_files = Some (Inr (), empty_tracker DATA_FILE, corrupt_files)
   \<and> BudgetTracker DATA_FILE bad_entry_files = Some (Inr (), empty_tracker DATA_FILE, bad_entry_files)"
proof -
  have 1: "lookup_file (no_files :: int fs) DATA_FILE = None"
    by (simp add: lookup_file_def no_files_def)
  have 2: "lookup_file corrupt_files DATA_FILE = Some Unparsable"
    by (simp add: lookup_file_def corrupt_files_def no_NUL_DATA_FILE)
  let ?bad = "JObj [(''type'', JStr ''salary''), (''amount'', JNum (10::int)),
                    (''date'', JStr ''2024-01-06''), (''description'', JStr ''bad kind'')]"
  let ?ok = "JObj [(''type'', JStr ''income''), (''amount'', JNum (10::int)),
                   (''date'', JStr ''2024-01-05''), (''description'', JStr ''ok'')]"
  let ?kvs = "[(''transactions'', JArr [?ok, ?bad]),
               (''expense_limits'', JObj [(''2024-01'', JNum (300::int))])]"
  have 3: "lookup_file bad_entry_files DATA_FILE = Some (Parsed (JObj ?kvs))
           \<and> map_of ?kvs ''transactions'' = Some (JArr [?ok, ?bad])
           \<and> ?bad \<in> set [?ok, ?bad] \<and> Transaction_kwargs ?bad = Some (Inl ValueError)"
    by (simp add: lookup_file_def bad_entry_files_def bad_entry_document_def no_NUL_DATA_FILE
        Transaction_kwargs_typed Transaction_eq)
  from load_swallows_failure [where fs = "no_files :: int fs" and path = DATA_FILE] 1
  have a: "BudgetTracker DATA_FILE (no_files :: int fs) = Some (Inr (), empty_tracker DATA_FILE, no_files)"
    by blast
  from load_swallows_failure [where fs = corrupt_files and path = DATA_FILE] 2
  have b: "BudgetTracker DATA_FILE corrupt_files = Some (Inr (), empty_tracker DATA_FILE, corrupt_files)"
    by blast
  from load_swallows_failure [where fs = bad_entry_files and path = DATA_FILE and kvs = ?kvs
      and ts = "[?ok, ?bad]" and t = ?bad and e = ValueError] 3
  have c: "BudgetTracker DATA_FILE bad_entry_files = Some (Inr (), empty_tracker DATA_FILE, bad_entry_files)"
    by blast
  from a b c show ?thesis by blast
qed

subsection \<open>C9: the queries change nothing\<close>

text \<open>
  C9. \<open>summary\<close> and \<open>months\<close> leave the store and the file system as they were,
  whether they return or raise. What they return does not depend on the file system;
  with a month given, \<open>summary\<close> does not depend on the clock, and without one it returns
  what it returns for the month the clock gives. This holds however the builtin computes
  its sums.
\<close>

theorem queries_read_only:
  fixes b :: "'a::{minus,ord} tracker"
  shows "snd (summary_with sm b fs mon_opt now) = (b, fs)
     \<and> snd (months b fs) = (b, fs)
     \<and> fst (summary_with sm b fs mon_opt now) = fst (summary_with sm b fs' mon_opt now)
     \<and> fst (summary_with sm b fs (Some m) now) = fst (summary_with sm b fs (Some m) now')
     \<and> fst (summary_with sm b fs None now) = fst (summary_with sm b fs (Some now) now')
     \<and> fst (months b fs) = fst (months b fs')"
  by (simp add: summary_with_def months_def Let_def split: sum.split)

theorem queries_read_only_witness:
  "snd (summary scenario_B no_files (Some ''2024-01'') ''2026-11'') = (scenario_B, no_files)
   \<and> snd (summary scenario_B no_files (Some ''2024-13'') ''2026-11'') = (scenario_B, no_files)
   \<and> snd (months scenario_B no_files) = (scenario_B, no_files)
   \<and> fst (summary scenario_B no_files (Some ''2024-01'') ''2026-11'')
       = fst (summary scenario_B corrupt_files (Some ''2024-01'') ''1999-12'')
   \<and> fst (summary scenario_B no_files None ''2024-01'')
       = fst (summary scenario_B no_files (Some ''2024-01'') ''2026-11'')"
  using
    queries_read_only [where sm = py_sum and b = scenario_B and fs = no_files
      and mon_opt = "Some ''2024-01''" and now = "''2026-11''" and fs' = corrupt_files
      and m = "''2024-01''" and now' = "''1999-12''"]
    queries_read_only [where sm = py_sum and b = scenario_B and fs = no_files
      and mon_opt = "Some ''2024-13''" and now = "''2026-11''"]
    queries_read_only [where sm = py_sum and b = scenario_B and fs = corrupt_files
      and mon_opt = "Some ''2024-01''" and now = "''2026-11''" and m = "''2024-01''"
      and now' = "''1999-12''"]
    queries_read_only [where sm = py_sum and b = scenario_B and fs = no_files and mon_opt = None
      and now = "''2024-01''" and now' = "''2026-11''"]
  by (simp add: summary_def)

subsection \<open>C10: a month written with one digit\<close>

text \<open>
  C10. The month \<^verbatim>\<open>2024-1\<close> is accepted by the validation of \<open>set_limit\<close> and
  \<open>summary\<close> and is not in the seven-character form. On a store with transactions of
  2024-01-05, 2024-10-05, 2024-11-02 and 2024-12-24, \<open>summary\<close> for \<^verbatim>\<open>2024-1\<close> sums
  the transactions of October, November and December (and not the one of January), while
  for \<^verbatim>\<open>2024-10\<close> it sums the one of October.
\<close>

theorem lenient_month_spans_months:
  "accepts_Ym ''2024-1'' \<and> \<not> strict_YYYY_MM ''2024-1'' \<and> length ''2024-1'' \<noteq> 7
   \<and> fst (set_limit prefix_store no_files ''2024-1'' 100) = Inr ()
   \<and> fst (summary prefix_store no_files (Some ''2024-1'') ''2026-11'')
       = Inr \<lparr>month = ''2024-1'', income = 120, expense = 30, balance = 90, limit = None,
              status = ''No limit set''\<rparr>
   \<and> fst (summary prefix_store no_files (Some ''2024-10'') ''2026-11'')
       = Inr \<lparr>month = ''2024-10'', income = 50, expense = 0, balance = 50, limit = None,
              status = ''No limit set''\<rparr>"
  by (simp add: accepts_2024_1 not_strict_2024_1 accepts_2024_10 set_limit_def summary_def
      summary_with_def strptime_Ym_eq Let_def save_no_files prefix_store_def py_sum_def
      startswith_def)

end
